theory Spec2Isabelle
  imports Complex_Main
begin

section \<open>Conventions of the embedding\<close>

text \<open>
  The repository is an event-driven backtester written in Python: \<^verbatim>\<open>event.py\<close>,
  \<^verbatim>\<open>data.py\<close>, \<^verbatim>\<open>portfolio.py\<close>, \<^verbatim>\<open>performance.py\<close> and the dispatch loop of
  \<^verbatim>\<open>main.py\<close>. Every method is a function from the attributes it reads to the
  attributes it writes. A Python exception is the left summand of the result; an
  uncaught exception ends the run, so the attributes written before it are not returned.

  The code is read as Python 3, the interpreter that \<^verbatim>\<open>import queue\<close> in
  \<^verbatim>\<open>portfolio.py\<close> needs. Python floats are modelled by exact reals (no rounding); the results of numpy
  divisions and pandas cells that can hold \<^verbatim>\<open>inf\<close> or \<^verbatim>\<open>nan\<close> have type \<open>npfloat\<close>.
  Python integers are \<open>int\<close>. A dictionary is a map, or an association list in
  insertion order where the code iterates over it.
\<close>

datatype exn =
  StopIteration | ValueError | AssertionError | KeyError | IndexError | TypeError
  | AttributeError

datatype npfloat = Fin real | PosInf | NegInf | NaN

text \<open>\<^verbatim>\<open>xs[i]\<close> on a Python list: a negative index counts from the end.\<close>

definition py_index :: "'a list \<Rightarrow> int \<Rightarrow> exn + 'a" where
  "py_index xs i =
     (if 0 \<le> i \<and> i < int (length xs) then Inr (xs ! nat i)
      else if i < 0 \<and> - int (length xs) \<le> i then Inr (xs ! nat (int (length xs) + i))
      else Inl IndexError)"

text \<open>\<^verbatim>\<open>xs[i:]\<close> on a Python list: the start is clipped to the list.\<close>

definition py_slice_from :: "'a list \<Rightarrow> int \<Rightarrow> 'a list" where
  "py_slice_from xs i =
     (if i < 0 then drop (nat (max 0 (int (length xs) + i))) xs else drop (nat i) xs)"

section \<open>event.py\<close>

text \<open>
  \<^verbatim>\<open>SignalEvent.__init__(symbol, datetime, signal_type)\<close> assigns \<^verbatim>\<open>type\<close>,
  \<^verbatim>\<open>symbol\<close>, \<^verbatim>\<open>datetime\<close> and \<^verbatim>\<open>signal_type\<close>. It has no strength parameter and
  assigns no \<^verbatim>\<open>strength\<close> attribute, while the portfolio reads \<^verbatim>\<open>signal.strength\<close>.
  The field \<open>strength\<close> is \<open>None\<close> when the object has no such attribute (any
  other code would have to set it on the object after construction).
\<close>

record 'dt SignalEvent =
  sig_symbol :: string
  sig_datetime :: 'dt
  signal_type :: string
  strength :: "real option"

definition SignalEvent_init :: "string \<Rightarrow> 'dt \<Rightarrow> string \<Rightarrow> exn + 'dt SignalEvent" where
  "SignalEvent_init symbol datetime sigtype =
     (if sigtype = ''LONG'' \<or> sigtype = ''SHORT'' \<or> sigtype = ''EXIT''
      then Inr \<lparr>sig_symbol = symbol, sig_datetime = datetime, signal_type = sigtype,
                strength = None\<rparr>
      else Inl AssertionError)"

text \<open>
  \<^verbatim>\<open>OrderEvent.__init__(symbol, order_type, quantity, direction)\<close> checks its four
  arguments with assertions and assigns no attribute at all (not even \<^verbatim>\<open>type\<close>). An
  order is modelled by the arguments it was constructed from. The quantity is an
  \<open>int\<close>, so the assertion \<^verbatim>\<open>isinstance(quantity, int)\<close> holds by typing
  (\<^verbatim>\<open>math.floor\<close> returns an int, as in Python 3).
\<close>

record OrderEvent =
  ord_symbol :: string
  order_type :: string
  ord_quantity :: int
  ord_direction :: string

definition OrderEvent_init :: "string \<Rightarrow> string \<Rightarrow> int \<Rightarrow> string \<Rightarrow> exn + OrderEvent" where
  "OrderEvent_init symbol otype quantity direction =
     (if \<not> (otype = ''MKT'' \<or> otype = ''LMT'') then Inl AssertionError
      else if \<not> (0 \<le> quantity) then Inl AssertionError
      else if \<not> (direction = ''BUY'' \<or> direction = ''SELL'') then Inl AssertionError
      else Inr \<lparr>ord_symbol = symbol, order_type = otype, ord_quantity = quantity,
                ord_direction = direction\<rparr>)"

text \<open>
  \<^verbatim>\<open>FillEvent.caculate_ib_commission\<close>, on the fill's \<^verbatim>\<open>quantity\<close> and
  \<^verbatim>\<open>fill_cost\<close>.
\<close>

definition caculate_ib_commission :: "int \<Rightarrow> real \<Rightarrow> real" where
  "caculate_ib_commission quantity fcost =
     (let full_cost =
        (if quantity \<le> 500 then max (13 / 10) (13 / 1000 * real_of_int quantity)
         else max (13 / 10) (8 / 1000 * real_of_int quantity))
      in min full_cost (5 / 10 / 100 * real_of_int quantity * fcost))"

record 'dt FillEvent =
  timeindex :: 'dt
  fill_symbol :: string
  exchange :: string
  fill_quantity :: int
  fill_direction :: string
  fill_cost :: real
  commission :: real

definition FillEvent_init ::
  "'dt \<Rightarrow> string \<Rightarrow> string \<Rightarrow> int \<Rightarrow> string \<Rightarrow> real \<Rightarrow> real option \<Rightarrow> 'dt FillEvent" where
  "FillEvent_init tix symbol exch quantity direction fcost comm =
     \<lparr>timeindex = tix, fill_symbol = symbol, exchange = exch, fill_quantity = quantity,
      fill_direction = direction, fill_cost = fcost,
      commission = (case comm of None \<Rightarrow> caculate_ib_commission quantity fcost
                    | Some c \<Rightarrow> c)\<rparr>"

text \<open>The four event classes; what the queue holds is an event or Python's \<^verbatim>\<open>None\<close>.\<close>

datatype 'dt event =
  MarketEvent
  | Signal "'dt SignalEvent"
  | Order OrderEvent
  | Fill "'dt FillEvent"

text \<open>
  \<^verbatim>\<open>event.type\<close>: the constructors of \<^verbatim>\<open>MarketEvent\<close>, \<^verbatim>\<open>SignalEvent\<close> and
  \<^verbatim>\<open>FillEvent\<close> assign it; that of \<^verbatim>\<open>OrderEvent\<close> does not.
\<close>

fun event_type :: "'dt event \<Rightarrow> exn + string" where
  "event_type MarketEvent = Inr ''MARKET''"
| "event_type (Signal s) = Inr ''SIGNAL''"
| "event_type (Order ord) = Inl AttributeError"
| "event_type (Fill f) = Inr ''FILL''"

section \<open>data.py\<close>

text \<open>
  A bar is the tuple \<^verbatim>\<open>(symbol, datetime, open, low, high, close, volume)\<close>;
  \<^verbatim>\<open>bar[1]\<close> is its datetime and \<^verbatim>\<open>bar[5]\<close> its close.
\<close>

record 'dt bar =
  bar_symbol :: string
  bar_datetime :: 'dt
  bar_open :: real
  bar_low :: real
  bar_high :: real
  bar_close :: real
  bar_volume :: real

text \<open>
  The state of a \<^verbatim>\<open>HistoricCSVDataHandler\<close>. \<^verbatim>\<open>symbol_data\<close> maps a symbol to the
  rows its iterator has still to yield, each an index label and the row's cells
  (\<open>None\<close>: a row of \<^verbatim>\<open>NaN\<close> that the reindexing made); it is an association list
  because \<^verbatim>\<open>_get_new_bar\<close> iterates over its keys. The event queue is shared with
  the portfolio and is passed beside the state.
\<close>

record ('ts, 'r, 'dt) HistoricCSVDataHandler =
  symbol_list :: "string list"
  symbol_data :: "(string \<times> ('ts \<times> 'r option) list) list"
  latest_symbol_data :: "string \<rightharpoonup> 'dt bar list"
  continue_backtest :: bool

text \<open>
  pandas, outside the repository. \<^verbatim>\<open>Index.union\<close> returns the sorted union of two
  indexes as a new index. \<^verbatim>\<open>DataFrame.reindex(index=idx, method='pad')\<close> returns one
  row per label of \<^verbatim>\<open>idx\<close>:
  \<^item> a frame reindexed on its own index is returned as it is, whatever its index;
  \<^item> otherwise a frame with a repeated label, or with an index that neither increases
    nor decreases, is refused with \<^verbatim>\<open>ValueError\<close>;
  \<^item> for an increasing index, a label gets the row of the last label of the frame that
    is at most that label, and a row of \<^verbatim>\<open>NaN\<close> when there is none;
  \<^item> for a decreasing index, a label gets the row at its own position, or else the row
    just before the place where it would be inserted: the row of the last label of the
    frame that is at least that label, and a row of \<^verbatim>\<open>NaN\<close> when there is none.
\<close>

definition index_union :: "('ts::linorder) list \<Rightarrow> 'ts list \<Rightarrow> 'ts list" where
  "index_union xs ys = sort (remdups (xs @ ys))"

fun pad_lookup :: "(('ts::linorder) \<times> 'r) list \<Rightarrow> 'ts \<Rightarrow> 'r option" where
  "pad_lookup [] t = None"
| "pad_lookup ((u, r) # rows) t =
     (if u \<le> t then (case pad_lookup rows t of None \<Rightarrow> Some r | Some r' \<Rightarrow> Some r')
      else None)"

fun pad_lookup_decreasing :: "(('ts::linorder) \<times> 'r) list \<Rightarrow> 'ts \<Rightarrow> 'r option" where
  "pad_lookup_decreasing [] t = None"
| "pad_lookup_decreasing ((u, r) # rows) t =
     (if t \<le> u
      then (case pad_lookup_decreasing rows t of None \<Rightarrow> Some r | Some r' \<Rightarrow> Some r')
      else None)"

definition reindex_pad ::
  "(('ts::linorder) \<times> 'r) list \<Rightarrow> 'ts list \<Rightarrow> exn + ('ts \<times> 'r option) list" where
  "reindex_pad frame idx =
     (if idx = map fst frame then Inr (map (\<lambda>(t, r). (t, Some r)) frame)
      else if \<not> distinct (map fst frame) then Inl ValueError
      else if sorted (map fst frame) then Inr (map (\<lambda>t. (t, pad_lookup frame t)) idx)
      else if sorted (rev (map fst frame))
        then Inr (map (\<lambda>t. (t, pad_lookup_decreasing frame t)) idx)
      else Inl ValueError)"

text \<open>
  \<^verbatim>\<open>_open_convert_csv_files\<close>. \<open>files s\<close> is the frame \<^verbatim>\<open>read_csv\<close> returns for
  \<^verbatim>\<open>s.csv\<close>, indexed on its first column. The first loop keeps the index of the first
  symbol in \<^verbatim>\<open>comb_index\<close>; for every later symbol it calls
  \<^verbatim>\<open>comb_index.union(...)\<close> and drops the result.
\<close>

fun comb_index_loop ::
  "(string \<Rightarrow> (('ts::linorder) \<times> 'r) list) \<Rightarrow> 'ts list option \<Rightarrow> string list \<Rightarrow> 'ts list option"
  where
  "comb_index_loop files comb_index [] = comb_index"
| "comb_index_loop files comb_index (s # ss) =
     comb_index_loop files
       (case comb_index of
          None \<Rightarrow> Some (map fst (files s))
        | Some ci \<Rightarrow> (\<lambda>unused. Some ci) (index_union ci (map fst (files s))))
       ss"

text \<open>
  The second loop replaces each frame by the iterator over its reindexed rows. A symbol
  listed twice meets its own iterator there, which has no \<^verbatim>\<open>reindex\<close>.
\<close>

fun reindex_loop ::
  "(string \<Rightarrow> (('ts::linorder) \<times> 'r) list) \<Rightarrow> 'ts list \<Rightarrow> string list \<Rightarrow> string list
     \<Rightarrow> exn + (string \<times> ('ts \<times> 'r option) list) list" where
  "reindex_loop files ci seen [] = Inr []"
| "reindex_loop files ci seen (s # ss) =
     (if s \<in> set seen then Inl AttributeError
      else case reindex_pad (files s) ci of
        Inl e \<Rightarrow> Inl e
      | Inr rows \<Rightarrow>
          (case reindex_loop files ci (s # seen) ss of
             Inl e \<Rightarrow> Inl e
           | Inr rest \<Rightarrow> Inr ((s, rows) # rest)))"

definition open_convert_csv_files ::
  "(string \<Rightarrow> (('ts::linorder) \<times> 'r) list) \<Rightarrow> string list
     \<Rightarrow> exn + ('ts, 'r, 'dt) HistoricCSVDataHandler" where
  "open_convert_csv_files files symbols =
     (case comb_index_loop files None symbols of
        None \<Rightarrow> Inr \<lparr>symbol_list = symbols, symbol_data = [],
                      latest_symbol_data = Map.empty, continue_backtest = True\<rparr>
      | Some ci \<Rightarrow>
          (case reindex_loop files ci [] symbols of
             Inl e \<Rightarrow> Inl e
           | Inr sd \<Rightarrow>
               Inr \<lparr>symbol_list = symbols, symbol_data = sd,
                    latest_symbol_data = (\<lambda>s. if s \<in> set symbols then Some [] else None),
                    continue_backtest = True\<rparr>))"

text \<open>
  The generator \<^verbatim>\<open>_get_new_bar(symbol)\<close>, by the first thing it would do when it is
  advanced. Its loop is \<^verbatim>\<open>for b in self.symbol_data\<close>: it runs over the keys of the
  dictionary, not over the rows of \<^verbatim>\<open>self.symbol_data[symbol]\<close>. With no key the
  generator ends at once (\<^verbatim>\<open>StopIteration\<close>). Otherwise \<open>b\<close> is the first key, a
  string, and the tuple is built from left to right: \<^verbatim>\<open>b[0]\<close> is its first
  character, \<open>strptime\<close> parses that one character as a datetime, \<^verbatim>\<open>b[1]\<close> is the
  second character, \<^verbatim>\<open>b[1][0]\<close> is that character again, and \<^verbatim>\<open>b[1][1]\<close>, an index
  into a string of one character, raises \<^verbatim>\<open>IndexError\<close>. No bar is ever made.
  \<open>strptime\<close> is \<^verbatim>\<open>datetime.strptime(_, '%Y-%m-%d %H:%M:%S')\<close>, \<open>None\<close> where it
  raises \<^verbatim>\<open>ValueError\<close>.
\<close>

definition get_new_bar_first ::
  "(string \<Rightarrow> 'dt option) \<Rightarrow> (string \<times> ('ts \<times> 'r option) list) list \<Rightarrow> string
     \<Rightarrow> exn + 'dt bar" where
  "get_new_bar_first strptime sdata symbol =
     (case map fst sdata of
        [] \<Rightarrow> Inl StopIteration
      | b # other_keys \<Rightarrow>
          (case py_index b 0 of
             Inl e \<Rightarrow> Inl e
           | Inr b0 \<Rightarrow>
               (case strptime [b0] of
                  None \<Rightarrow> Inl ValueError
                | Some dt \<Rightarrow>
                    (case py_index b 1 of
                       Inl e \<Rightarrow> Inl e
                     | Inr b1 \<Rightarrow> Inl IndexError))))"

text \<open>
  \<^verbatim>\<open>gen.next()\<close> on a generator: in Python 3 a generator is advanced by
  \<^verbatim>\<open>next(gen)\<close> and has no attribute \<^verbatim>\<open>next\<close>, so the call raises
  \<^verbatim>\<open>AttributeError\<close> before the generator runs, whatever it would have yielded.
\<close>

definition generator_next :: "exn + 'a \<Rightarrow> exn + 'a" where
  "generator_next first_value = Inl AttributeError"

text \<open>
  \<^verbatim>\<open>get_latest_bars(symbol, N=1)\<close>: \<^verbatim>\<open>bar_list[-N:]\<close> for a symbol of
  \<^verbatim>\<open>latest_symbol_data\<close>; for any other symbol the \<^verbatim>\<open>KeyError\<close> is caught, a
  message is printed and the method falls off its end, returning Python's \<^verbatim>\<open>None\<close>
  (the result \<open>None\<close> here).
\<close>

definition get_latest_bars :: "(string \<rightharpoonup> 'b list) \<Rightarrow> string \<Rightarrow> int \<Rightarrow> 'b list option" where
  "get_latest_bars latest symbol N =
     (case latest symbol of
        None \<Rightarrow> None
      | Some bar_list \<Rightarrow> Some (py_slice_from bar_list (- N)))"

text \<open>
  \<^verbatim>\<open>update_bars\<close>: for every symbol, \<^verbatim>\<open>self._get_new_bar(s).next()\<close> is called;
  the bar it returns is appended to the symbol's list of latest bars, and
  \<^verbatim>\<open>StopIteration\<close> clears \<^verbatim>\<open>continue_backtest\<close>; any other exception leaves the
  method. After the loop a \<^verbatim>\<open>MarketEvent\<close> is put on the queue,
  whatever the loop found. The method returns nothing.
\<close>

fun update_bars_loop ::
  "(string \<Rightarrow> 'dt option) \<Rightarrow> ('ts, 'r, 'dt) HistoricCSVDataHandler \<Rightarrow> string list
     \<Rightarrow> exn + ('ts, 'r, 'dt) HistoricCSVDataHandler" where
  "update_bars_loop strptime h [] = Inr h"
| "update_bars_loop strptime h (s # ss) =
     (case generator_next (get_new_bar_first strptime (symbol_data h) s) of
        Inl StopIteration \<Rightarrow> update_bars_loop strptime (h\<lparr>continue_backtest := False\<rparr>) ss
      | Inl e \<Rightarrow> Inl e
      | Inr new_bar \<Rightarrow>
          (case latest_symbol_data h s of
             None \<Rightarrow> Inl KeyError
           | Some bar_list \<Rightarrow>
               update_bars_loop strptime
                 (h\<lparr>latest_symbol_data := (latest_symbol_data h)(s \<mapsto> bar_list @ [new_bar])\<rparr>)
                 ss))"

definition update_bars ::
  "(string \<Rightarrow> 'dt option) \<Rightarrow> ('ts, 'r, 'dt) HistoricCSVDataHandler \<Rightarrow> 'dt event option list
     \<Rightarrow> exn + (('ts, 'r, 'dt) HistoricCSVDataHandler \<times> 'dt event option list)" where
  "update_bars strptime h events =
     (case update_bars_loop strptime h (symbol_list h) of
        Inl e \<Rightarrow> Inl e
      | Inr h' \<Rightarrow> Inr (h', events @ [Some MarketEvent]))"

section \<open>portfolio.py\<close>

text \<open>
  A row of \<^verbatim>\<open>all_position\<close> or \<^verbatim>\<open>all_holdings\<close> is a dictionary keyed by the
  symbols and by \<^verbatim>\<open>'datetime'\<close>; a holdings row has the keys \<^verbatim>\<open>'cash'\<close>,
  \<^verbatim>\<open>'commission'\<close> and \<^verbatim>\<open>'total'\<close> as well. The datetime cell has a type of its
  own and is kept beside the numeric cells, which stay in one map: a symbol named
  \<^verbatim>\<open>'cash'\<close>, \<^verbatim>\<open>'commission'\<close> or \<^verbatim>\<open>'total'\<close> shares its cell with the ledger entry,
  as in the source.
\<close>

record 'dt positions_row =
  pos_datetime :: 'dt
  pos_cells :: "string \<rightharpoonup> int"

record 'dt holdings_row =
  row_datetime :: 'dt
  row_cells :: "string \<rightharpoonup> real"

text \<open>
  \<^verbatim>\<open>construct_current_holdings\<close> ends in \<^verbatim>\<open>return [d]\<close>: the attribute
  \<^verbatim>\<open>current_holdings\<close> of a new portfolio is a list holding one dictionary, while every
  method subscripts it with a string key, which a list answers with \<^verbatim>\<open>TypeError\<close>.
  The attribute is therefore a dictionary or a list of dictionaries.
\<close>

datatype holdings_attr = HoldingsDict "string \<rightharpoonup> real" | HoldingsList "(string \<rightharpoonup> real) list"

fun holdings_dict :: "holdings_attr \<Rightarrow> exn + (string \<rightharpoonup> real)" where
  "holdings_dict (HoldingsDict d) = Inr d"
| "holdings_dict (HoldingsList ds) = Inl TypeError"

record 'dt NaivePortfolio =
  port_symbol_list :: "string list"
  start_date :: 'dt
  init_capital :: real
  all_position :: "'dt positions_row list"
  current_positions :: "string \<rightharpoonup> int"
  all_holdings :: "'dt holdings_row list"
  current_holdings :: holdings_attr

text \<open>\<^verbatim>\<open>dict((k,v) for k,v in [(s,0) for s in self.symbol_list])\<close>\<close>

definition zero_dict :: "string list \<Rightarrow> (string \<rightharpoonup> 'n::zero)" where
  "zero_dict symbols = (\<lambda>k. if k \<in> set symbols then Some 0 else None)"

definition construct_all_positions :: "string list \<Rightarrow> 'dt \<Rightarrow> 'dt positions_row list" where
  "construct_all_positions symbols start =
     [\<lparr>pos_datetime = start, pos_cells = zero_dict symbols\<rparr>]"

definition construct_all_holdings :: "string list \<Rightarrow> 'dt \<Rightarrow> real \<Rightarrow> 'dt holdings_row list" where
  "construct_all_holdings symbols start capital =
     [\<lparr>row_datetime = start,
       row_cells = (zero_dict symbols)(''cash'' \<mapsto> capital, ''commission'' \<mapsto> 0,
                                        ''total'' \<mapsto> capital)\<rparr>]"

definition construct_current_holdings :: "string list \<Rightarrow> real \<Rightarrow> (string \<rightharpoonup> real) list" where
  "construct_current_holdings symbols capital =
     [(zero_dict symbols)(''cash'' \<mapsto> capital, ''commission'' \<mapsto> 0, ''total'' \<mapsto> capital)]"

definition NaivePortfolio_init :: "string list \<Rightarrow> 'dt \<Rightarrow> real \<Rightarrow> 'dt NaivePortfolio" where
  "NaivePortfolio_init symbols start capital =
     \<lparr>port_symbol_list = symbols, start_date = start, init_capital = capital,
      all_position = construct_all_positions symbols start,
      current_positions = zero_dict symbols,
      all_holdings = construct_all_holdings symbols start capital,
      current_holdings = HoldingsList (construct_current_holdings symbols capital)\<rparr>"

text \<open>
  The ledger invariant in the words of the specification: in a dictionary of holdings,
  \<^verbatim>\<open>total\<close> is \<^verbatim>\<open>cash\<close> plus the sum of the values stored under the tracked
  symbols.
\<close>

definition symbol_value :: "(string \<rightharpoonup> real) \<Rightarrow> string \<Rightarrow> real" where
  "symbol_value cells s = (case cells s of None \<Rightarrow> 0 | Some v \<Rightarrow> v)"

definition total_is_cash_plus_values :: "string list \<Rightarrow> (string \<rightharpoonup> real) \<Rightarrow> bool" where
  "total_is_cash_plus_values symbols cells =
     (case cells ''total'' of
        None \<Rightarrow> False
      | Some t \<Rightarrow>
          (case cells ''cash'' of
             None \<Rightarrow> False
           | Some c \<Rightarrow> t = c + sum_list (map (symbol_value cells) symbols)))"

text \<open>
  \<^verbatim>\<open>bars[s][0]\<close> where \<^verbatim>\<open>bars[s]\<close> is what \<^verbatim>\<open>get_latest_bars\<close> returned:
  \<^verbatim>\<open>None\<close> cannot be subscripted, an empty list has no first element.
\<close>

fun first_bar :: "'b list option \<Rightarrow> exn + 'b" where
  "first_bar None = Inl TypeError"
| "first_bar (Some []) = Inl IndexError"
| "first_bar (Some (b # bs)) = Inr b"

text \<open>\<^verbatim>\<open>update_timeindex\<close>: the loop \<^verbatim>\<open>dp[s] = self.current_positions[s]\<close>.\<close>

fun positions_loop ::
  "(string \<rightharpoonup> int) \<Rightarrow> (string \<rightharpoonup> int) \<Rightarrow> string list \<Rightarrow> exn + (string \<rightharpoonup> int)" where
  "positions_loop cp dp [] = Inr dp"
| "positions_loop cp dp (s # ss) =
     (case cp s of
        None \<Rightarrow> Inl KeyError
      | Some q \<Rightarrow> positions_loop cp (dp(s \<mapsto> q)) ss)"

text \<open>
  \<^verbatim>\<open>update_timeindex\<close>: the loop that values every symbol at the close of its latest
  bar, stores the value under the symbol and adds it to \<^verbatim>\<open>dh['total']\<close>.
\<close>

fun holdings_loop ::
  "(string \<rightharpoonup> int) \<Rightarrow> (string \<Rightarrow> 'dt bar list option) \<Rightarrow> (string \<rightharpoonup> real) \<Rightarrow> string list
     \<Rightarrow> exn + (string \<rightharpoonup> real)" where
  "holdings_loop cp bars dh [] = Inr dh"
| "holdings_loop cp bars dh (s # ss) =
     (case cp s of
        None \<Rightarrow> Inl KeyError
      | Some q \<Rightarrow>
          (case first_bar (bars s) of
             Inl e \<Rightarrow> Inl e
           | Inr b \<Rightarrow>
               (let market_val = real_of_int q * bar_close b;
                    dh1 = dh(s \<mapsto> market_val)
                in case dh1 ''total'' of
                     None \<Rightarrow> Inl KeyError
                   | Some t \<Rightarrow> holdings_loop cp bars (dh1(''total'' \<mapsto> t + market_val)) ss)))"

definition update_timeindex ::
  "(string \<rightharpoonup> 'dt bar list) \<Rightarrow> 'dt NaivePortfolio \<Rightarrow> exn + 'dt NaivePortfolio" where
  "update_timeindex latest p =
     (let bars = (\<lambda>sym. get_latest_bars latest sym 1) in
      case py_index (port_symbol_list p) 0 of
        Inl e \<Rightarrow> Inl e
      | Inr s0 \<Rightarrow>
      (case first_bar (bars s0) of
        Inl e \<Rightarrow> Inl e
      | Inr b0 \<Rightarrow>
      (case positions_loop (current_positions p) (zero_dict (port_symbol_list p))
              (port_symbol_list p) of
        Inl e \<Rightarrow> Inl e
      | Inr dp \<Rightarrow>
      (case holdings_dict (current_holdings p) of
        Inl e \<Rightarrow> Inl e
      | Inr ch \<Rightarrow>
      (case ch ''cash'' of
        None \<Rightarrow> Inl KeyError
      | Some cash \<Rightarrow>
      (case ch ''commission'' of
        None \<Rightarrow> Inl KeyError
      | Some comm \<Rightarrow>
      (case holdings_loop (current_positions p) bars
              ((zero_dict (port_symbol_list p))
                 (''cash'' \<mapsto> cash, ''commission'' \<mapsto> comm, ''total'' \<mapsto> cash))
              (port_symbol_list p) of
        Inl e \<Rightarrow> Inl e
      | Inr dh \<Rightarrow>
          Inr (p\<lparr>all_position :=
                    all_position p @ [\<lparr>pos_datetime = bar_datetime b0, pos_cells = dp\<rparr>],
                  all_holdings :=
                    all_holdings p @ [\<lparr>row_datetime = bar_datetime b0, row_cells = dh\<rparr>]\<rparr>))))))))"

text \<open>
  \<^verbatim>\<open>fill_dir\<close>: 0, then 1 for \<^verbatim>\<open>'BUY'\<close>, then -1 for \<^verbatim>\<open>'SELL'\<close>.
\<close>

definition fill_dir :: "string \<Rightarrow> int" where
  "fill_dir direction =
     (if direction = ''SELL'' then - 1 else if direction = ''BUY'' then 1 else 0)"

text \<open>
  \<^verbatim>\<open>update_positions_from_fill\<close>:
  \<^verbatim>\<open>self.current_positions[fill.symbol] += fill_dir * fill.quantity\<close>.
\<close>

definition update_positions_from_fill ::
  "'dt NaivePortfolio \<Rightarrow> 'dt FillEvent \<Rightarrow> exn + 'dt NaivePortfolio" where
  "update_positions_from_fill p fill =
     (case current_positions p (fill_symbol fill) of
        None \<Rightarrow> Inl KeyError
      | Some q \<Rightarrow>
          Inr (p\<lparr>current_positions :=
                    (current_positions p)
                      (fill_symbol fill \<mapsto> q + fill_dir (fill_direction fill) * fill_quantity fill)\<rparr>))"

text \<open>
  \<^verbatim>\<open>update_holdings_from_fill\<close>. The price is
  \<^verbatim>\<open>self.bars.get_latest_bars(fill.symbol)[0][5]\<close>, the close of the symbol's latest
  bar; the fill's own \<^verbatim>\<open>fill_cost\<close> is not read. Then the four cells are updated in
  the order of the source, each with \<^verbatim>\<open>+=\<close> or \<^verbatim>\<open>-=\<close>.
\<close>

definition update_holdings_from_fill ::
  "(string \<rightharpoonup> 'dt bar list) \<Rightarrow> 'dt NaivePortfolio \<Rightarrow> 'dt FillEvent \<Rightarrow> exn + 'dt NaivePortfolio"
  where
  "update_holdings_from_fill latest p fill =
     (case first_bar (get_latest_bars latest (fill_symbol fill) 1) of
        Inl e \<Rightarrow> Inl e
      | Inr b \<Rightarrow>
      (let fill_price = bar_close b;
           cost = real_of_int (fill_dir (fill_direction fill)) * fill_price
                    * real_of_int (fill_quantity fill)
       in
      (case holdings_dict (current_holdings p) of
        Inl e \<Rightarrow> Inl e
      | Inr ch \<Rightarrow>
      (case ch (fill_symbol fill) of
        None \<Rightarrow> Inl KeyError
      | Some v \<Rightarrow>
      (let ch1 = ch(fill_symbol fill \<mapsto> v + cost) in
      (case ch1 ''commission'' of
        None \<Rightarrow> Inl KeyError
      | Some c \<Rightarrow>
      (let ch2 = ch1(''commission'' \<mapsto> c + commission fill) in
      (case ch2 ''cash'' of
        None \<Rightarrow> Inl KeyError
      | Some x \<Rightarrow>
      (let ch3 = ch2(''cash'' \<mapsto> x - (cost + commission fill)) in
      (case ch3 ''total'' of
        None \<Rightarrow> Inl KeyError
      | Some t \<Rightarrow>
          Inr (p\<lparr>current_holdings :=
                    HoldingsDict (ch3(''total'' \<mapsto> t - (cost + commission fill)))\<rparr>)))))))))))"

text \<open>
  \<^verbatim>\<open>update_fill\<close>: for an event whose \<^verbatim>\<open>type\<close> is \<^verbatim>\<open>'FILL'\<close>, the holdings
  first and the positions second; nothing for another type.
\<close>

definition update_fill ::
  "(string \<rightharpoonup> 'dt bar list) \<Rightarrow> 'dt NaivePortfolio \<Rightarrow> 'dt event \<Rightarrow> exn + 'dt NaivePortfolio" where
  "update_fill latest p ev =
     (case event_type ev of
        Inl e \<Rightarrow> Inl e
      | Inr ty \<Rightarrow>
          (case ev of
             Fill fill \<Rightarrow>
               (case update_holdings_from_fill latest p fill of
                  Inl e \<Rightarrow> Inl e
                | Inr p1 \<Rightarrow> update_positions_from_fill p1 fill)
           | other \<Rightarrow> Inr p))"

text \<open>
  \<^verbatim>\<open>generate_naive_order\<close>. Reading \<^verbatim>\<open>signal.strength\<close> raises
  \<^verbatim>\<open>AttributeError\<close> on a signal that has no such attribute; the position of a symbol
  that is not tracked is a \<^verbatim>\<open>KeyError\<close>. The four conditions of the source exclude one
  another, so at most one \<^verbatim>\<open>OrderEvent\<close> is constructed; \<^verbatim>\<open>order\<close> stays \<^verbatim>\<open>None\<close>
  when none holds.
\<close>

definition generate_naive_order ::
  "'dt NaivePortfolio \<Rightarrow> 'dt SignalEvent \<Rightarrow> exn + OrderEvent option" where
  "generate_naive_order p signal =
     (let symbol = sig_symbol signal; direction = signal_type signal in
      case strength signal of
        None \<Rightarrow> Inl AttributeError
      | Some strength_val \<Rightarrow>
      (let mkt_quantity = \<lfloor>100 * strength_val\<rfloor> in
       case current_positions p symbol of
         None \<Rightarrow> Inl KeyError
       | Some cur_quantity \<Rightarrow>
       (let otype = ''MKT'' in
        if direction = ''LONG'' \<and> cur_quantity = 0
          then map_sum id Some (OrderEvent_init symbol otype mkt_quantity ''BUY'')
        else if direction = ''SHORT'' \<and> cur_quantity = 0
          then map_sum id Some (OrderEvent_init symbol otype mkt_quantity ''SELL'')
        else if direction = ''EXIT'' \<and> cur_quantity > 0
          then map_sum id Some (OrderEvent_init symbol otype \<bar>cur_quantity\<bar> ''SELL'')
        else if direction = ''EXIT'' \<and> cur_quantity < 0
          then map_sum id Some (OrderEvent_init symbol otype \<bar>cur_quantity\<bar> ''BUY'')
        else Inr None)))"

text \<open>
  \<^verbatim>\<open>update_signal\<close>: for an event whose \<^verbatim>\<open>type\<close> is \<^verbatim>\<open>'SIGNAL'\<close>, whatever
  \<^verbatim>\<open>generate_naive_order\<close> returned is put on the queue, \<^verbatim>\<open>None\<close> included.
\<close>

definition update_signal ::
  "'dt NaivePortfolio \<Rightarrow> 'dt event option list \<Rightarrow> 'dt event \<Rightarrow> exn + 'dt event option list" where
  "update_signal p events ev =
     (case event_type ev of
        Inl e \<Rightarrow> Inl e
      | Inr ty \<Rightarrow>
          (case ev of
             Signal signal \<Rightarrow>
               (case generate_naive_order p signal of
                  Inl e \<Rightarrow> Inl e
                | Inr order_event \<Rightarrow> Inr (events @ [map_option Order order_event]))
           | other \<Rightarrow> Inr events))"

section \<open>performance.py\<close>

text \<open>
  The returns and the equity curve are documented as pandas Series, and
  \<^verbatim>\<open>output_summary_stats\<close> passes Series; a caller can pass a Python list as well. The
  two differ in what the functions use:
  \<^item> \<^verbatim>\<open>not xs\<close> holds for the empty list and for no other list; pandas refuses the
    truth value of every Series with \<^verbatim>\<open>ValueError\<close>;
  \<^item> \<^verbatim>\<open>xs.index\<close> is the index of a Series, and a method of a list, from which
    \<^verbatim>\<open>pd.Series(index=...)\<close> makes no series (\<^verbatim>\<open>TypeError\<close>).
\<close>

datatype 'a pyseq = PyList "'a list" | Series "'a list"

fun py_not :: "'a pyseq \<Rightarrow> exn + bool" where
  "py_not (PyList xs) = Inr (xs = [])"
| "py_not (Series xs) = Inl ValueError"

fun values_of :: "'a pyseq \<Rightarrow> 'a list" where
  "values_of (PyList xs) = xs"
| "values_of (Series xs) = xs"

text \<open>
  numpy, outside the repository. The division of two floats raises nothing on a zero
  divisor: it warns and returns \<^verbatim>\<open>inf\<close>, \<^verbatim>\<open>-inf\<close> or \<^verbatim>\<open>nan\<close>. \<^verbatim>\<open>np.mean\<close> and
  \<^verbatim>\<open>np.std\<close> are parameters of \<^verbatim>\<open>get_sharpe_ratio\<close> below, so that what is proved
  of it holds for the rounded results of numpy too; \<open>np_mean\<close> and \<open>np_std\<close> are the
  mean and the population standard deviation (\<^verbatim>\<open>ddof=0\<close>) in exact arithmetic.
\<close>

definition np_mean :: "real list \<Rightarrow> real" where
  "np_mean xs = sum_list xs / real (length xs)"

definition np_std :: "real list \<Rightarrow> real" where
  "np_std xs = sqrt (np_mean (map (\<lambda>x. (x - np_mean xs)\<^sup>2) xs))"

definition np_div :: "real \<Rightarrow> real \<Rightarrow> npfloat" where
  "np_div a b =
     (if b \<noteq> 0 then Fin (a / b)
      else if 0 < a then PosInf else if a < 0 then NegInf else NaN)"

text \<open>The dictionary \<^verbatim>\<open>period\<close> of \<^verbatim>\<open>get_sharpe_ratio\<close>.\<close>

definition period :: "string \<rightharpoonup> real" where
  "period = [''Daily'' \<mapsto> 252, ''Hour'' \<mapsto> 252 * (65 / 10), ''Minute'' \<mapsto> 252 * (65 / 10) * 60]"

text \<open>
  \<^verbatim>\<open>get_sharpe_ratio(returns, risk_free=0, periods='Daily')\<close>, with \<^verbatim>\<open>np.mean\<close>
  and \<^verbatim>\<open>np.std\<close> as its first two arguments. \<^verbatim>\<open>risk_free\<close> is checked and not
  used.
\<close>

definition get_sharpe_ratio ::
  "(real list \<Rightarrow> real) \<Rightarrow> (real list \<Rightarrow> real) \<Rightarrow> real pyseq \<Rightarrow> real \<Rightarrow> string
     \<Rightarrow> exn + npfloat" where
  "get_sharpe_ratio mean std returns risk_free periods =
     (case py_not returns of
        Inl e \<Rightarrow> Inl e
      | Inr is_empty \<Rightarrow>
          if is_empty then Inl ValueError
          else if \<not> (periods = ''Daily'' \<or> periods = ''Hour'' \<or> periods = ''Minute'')
            then Inl AssertionError
          else if \<not> (0 \<le> risk_free \<and> risk_free \<le> 1) then Inl AssertionError
          else case period periods of
                 None \<Rightarrow> Inl KeyError
               | Some pc \<Rightarrow>
                   Inr (np_div (sqrt pc * mean (values_of returns)) (std (values_of returns))))"

text \<open>\<^verbatim>\<open>duration[t-1] + 1\<close> on a cell that may hold \<^verbatim>\<open>nan\<close>.\<close>

fun np_add :: "npfloat \<Rightarrow> real \<Rightarrow> npfloat" where
  "np_add (Fin a) b = Fin (a + b)"
| "np_add other b = other"

text \<open>
  The loop of \<^verbatim>\<open>create_drawdowns\<close> over \<open>t = 0, 1, ...\<close>, on the cells of a Series.
  \<^verbatim>\<open>hwm\<close> is a Python list that starts as \<^verbatim>\<open>[0]\<close> and grows by one element per
  step, so \<^verbatim>\<open>hwm[t-1]\<close> at \<open>t = 0\<close> is its last element and \<^verbatim>\<open>hwm[t]\<close>, read
  after the append, is the element appended one step earlier. \<^verbatim>\<open>drawdown[t]\<close> is
  written once per step and read in the same step, so the series is the list of the
  values written so far. \<^verbatim>\<open>duration\<close> is a series of \<^verbatim>\<open>nan\<close> cells, one per point,
  read and written by position (the portfolio passes a series indexed by datetimes);
  \<^verbatim>\<open>duration[t-1]\<close> at \<open>t = 0\<close> is its last cell.
\<close>

fun drawdowns_loop ::
  "real list \<Rightarrow> nat list \<Rightarrow> real list \<times> real list \<times> npfloat list
     \<Rightarrow> exn + (real list \<times> real list \<times> npfloat list)" where
  "drawdowns_loop equity_curve [] st = Inr st"
| "drawdowns_loop equity_curve (t # ts) (hwm, drawdown, duration) =
     (case py_index hwm (int t - 1) of
        Inl e \<Rightarrow> Inl e
      | Inr hwm_prev \<Rightarrow>
      (case py_index equity_curve (int t) of
        Inl e \<Rightarrow> Inl e
      | Inr eq_t \<Rightarrow>
      (let cur_hwm = max hwm_prev eq_t; hwm1 = hwm @ [cur_hwm] in
      (case py_index hwm1 (int t) of
        Inl e \<Rightarrow> Inl e
      | Inr hwm_t \<Rightarrow>
      (let dd = hwm_t - eq_t in
       if dd = 0
       then drawdowns_loop equity_curve ts (hwm1, drawdown @ [dd], duration[t := Fin 0])
       else (case py_index duration (int t - 1) of
               Inl e \<Rightarrow> Inl e
             | Inr dur_prev \<Rightarrow>
                 drawdowns_loop equity_curve ts
                   (hwm1, drawdown @ [dd], duration[t := np_add dur_prev 1])))))))"

text \<open>
  \<^verbatim>\<open>create_drawdowns\<close>. A list has no index to build the two series on. The result is
  \<^verbatim>\<open>sorted(zip(drawdown, duration), key=lambda obj:obj[0], reverse=True)\<close>: Python
  reverses the list, sorts it stably by the key and reverses the result, so equal
  drawdowns keep their order.
\<close>

fun create_drawdowns :: "real pyseq \<Rightarrow> exn + (real \<times> npfloat) list" where
  "create_drawdowns (PyList xs) = Inl TypeError"
| "create_drawdowns (Series equity_curve) =
     (case drawdowns_loop equity_curve [0..<length equity_curve]
             ([0], [], replicate (length equity_curve) NaN) of
        Inl e \<Rightarrow> Inl e
      | Inr (hwm, drawdown, duration) \<Rightarrow>
          Inr (rev (sort_key fst (rev (zip drawdown duration)))))"

text \<open>
  \<^verbatim>\<open>get_max_drawdowns\<close>: the test \<^verbatim>\<open>if not equity_curve\<close>, then the first pair of
  \<^verbatim>\<open>create_drawdowns\<close>.
\<close>

definition get_max_drawdowns :: "real pyseq \<Rightarrow> exn + (real \<times> npfloat)" where
  "get_max_drawdowns equity_curve =
     (case py_not equity_curve of
        Inl e \<Rightarrow> Inl e
      | Inr is_empty \<Rightarrow>
          if is_empty then Inl ValueError
          else case create_drawdowns equity_curve of
                 Inl e \<Rightarrow> Inl e
               | Inr res \<Rightarrow>
                   (case py_index res 0 of
                      Inl e \<Rightarrow> Inl e
                    | Inr r \<Rightarrow> Inr (fst r, snd r)))"

section \<open>main.py\<close>

text \<open>
  The run: the data handler, the portfolio, the event queue they share, and the state
  \<open>ext\<close> of the two collaborators that are not in the repository. The strategy
  (\<^verbatim>\<open>strategy.caculate_signal\<close>) reads the handler and may put events on the queue;
  the broker (\<^verbatim>\<open>broker.execute_order\<close>) receives the event and may put events on the
  queue. \<^verbatim>\<open>time.sleep(60)\<close> changes nothing.
\<close>

record ('ts, 'r, 'dt, 'x) backtest =
  bars :: "('ts, 'r, 'dt) HistoricCSVDataHandler"
  port :: "'dt NaivePortfolio"
  events :: "'dt event option list"
  ext :: 'x

type_synonym ('ts, 'r, 'dt, 'x) strategy =
  "'x \<Rightarrow> ('ts, 'r, 'dt) HistoricCSVDataHandler \<Rightarrow> 'dt event option list
     \<Rightarrow> exn + ('x \<times> 'dt event option list)"

type_synonym ('dt, 'x) broker =
  "'x \<Rightarrow> 'dt event \<Rightarrow> 'dt event option list \<Rightarrow> exn + ('x \<times> 'dt event option list)"

text \<open>The body of \<^verbatim>\<open>if event is not None:\<close>, for an event taken off the queue.\<close>

definition dispatch ::
  "('ts, 'r, 'dt, 'x) strategy \<Rightarrow> ('dt, 'x) broker \<Rightarrow> 'dt event \<Rightarrow> ('ts, 'r, 'dt, 'x) backtest
     \<Rightarrow> exn + ('ts, 'r, 'dt, 'x) backtest" where
  "dispatch strategy broker ev s =
     (case event_type ev of
        Inl e \<Rightarrow> Inl e
      | Inr ty \<Rightarrow>
          if ty = ''MARKET'' then
            (case strategy (ext s) (bars s) (events s) of
               Inl e \<Rightarrow> Inl e
             | Inr (x, q) \<Rightarrow>
                 (case update_timeindex (latest_symbol_data (bars s)) (port s) of
                    Inl e \<Rightarrow> Inl e
                  | Inr p \<Rightarrow> Inr (s\<lparr>port := p, events := q, ext := x\<rparr>)))
          else if ty = ''SIGNAL'' then
            (case update_signal (port s) (events s) ev of
               Inl e \<Rightarrow> Inl e
             | Inr q \<Rightarrow> Inr (s\<lparr>events := q\<rparr>))
          else if ty = ''ORDER'' then
            (case broker (ext s) ev (events s) of
               Inl e \<Rightarrow> Inl e
             | Inr (x, q) \<Rightarrow> Inr (s\<lparr>events := q, ext := x\<rparr>))
          else if ty = ''FILL'' then
            (case update_fill (latest_symbol_data (bars s)) (port s) ev of
               Inl e \<Rightarrow> Inl e
             | Inr p \<Rightarrow> Inr (s\<lparr>port := p\<rparr>))
          else Inr s)"

text \<open>
  The inner loop: \<^verbatim>\<open>events.get(False)\<close> takes the oldest event, and an empty queue
  (\<^verbatim>\<open>Queue.Empty\<close>) leaves the loop. The collaborators may refill the queue for ever,
  so the loop has fuel: \<open>None\<close> when it runs out, \<open>Some\<close> of the state or of the
  exception otherwise.
\<close>

fun inner_loop ::
  "('ts, 'r, 'dt, 'x) strategy \<Rightarrow> ('dt, 'x) broker \<Rightarrow> nat \<Rightarrow> ('ts, 'r, 'dt, 'x) backtest
     \<Rightarrow> (exn + ('ts, 'r, 'dt, 'x) backtest) option" where
  "inner_loop strategy broker 0 s = None"
| "inner_loop strategy broker (Suc n) s =
     (case events s of
        [] \<Rightarrow> Some (Inr s)
      | item # rest \<Rightarrow>
          (case item of
             None \<Rightarrow> inner_loop strategy broker n (s\<lparr>events := rest\<rparr>)
           | Some ev \<Rightarrow>
               (case dispatch strategy broker ev (s\<lparr>events := rest\<rparr>) of
                  Inl e \<Rightarrow> Some (Inl e)
                | Inr s1 \<Rightarrow> inner_loop strategy broker n s1)))"

text \<open>
  The outer loop: \<^verbatim>\<open>continue_backtest\<close> is tested before \<^verbatim>\<open>update_bars\<close> is called,
  and nowhere else. \<open>k\<close> is the fuel of each inner loop, the third argument the
  fuel of the outer loop.
\<close>

fun main_loop ::
  "(string \<Rightarrow> 'dt option) \<Rightarrow> ('ts, 'r, 'dt, 'x) strategy \<Rightarrow> ('dt, 'x) broker \<Rightarrow> nat \<Rightarrow> nat
     \<Rightarrow> ('ts, 'r, 'dt, 'x) backtest \<Rightarrow> (exn + ('ts, 'r, 'dt, 'x) backtest) option" where
  "main_loop strptime strategy broker k 0 s = None"
| "main_loop strptime strategy broker k (Suc n) s =
     (if continue_backtest (bars s) then
        (case update_bars strptime (bars s) (events s) of
           Inl e \<Rightarrow> Some (Inl e)
         | Inr (h, q) \<Rightarrow>
             (case inner_loop strategy broker k (s\<lparr>bars := h, events := q\<rparr>) of
                None \<Rightarrow> None
              | Some (Inl e) \<Rightarrow> Some (Inl e)
              | Some (Inr s1) \<Rightarrow> main_loop strptime strategy broker k n s1))
      else Some (Inr s))"

section \<open>Properties of event.py\<close>

subsection \<open>The derived commission\<close>

lemma min_max_le_cap: "min (max a b) c \<le> (c::real)"
  by simp

lemma min_floor_le: "min a c \<le> min (max a b) (c::real)"
  by (simp add: min_def max_def)

lemma min_max_below_cap: "max a b \<le> c \<Longrightarrow> min (max a b) c = max a (b::real)"
  by (simp add: min_def)

lemma commission_unfold:
  "caculate_ib_commission q p =
     min (max (13 / 10) ((if q \<le> 500 then 13 / 1000 else 8 / 1000) * real_of_int q))
         (5 / 10 / 100 * real_of_int q * p)"
  by (simp add: caculate_ib_commission_def Let_def)

text \<open>
  Claim C9, as amended. For every quantity \<open>q\<close> and fill price \<open>p\<close>, the commission
  derived for a fill is at most the cap, 0.5 percent of \<open>q * p\<close>, and at least the
  smaller of the flat amount 1.3 and that cap: the cap is applied last, so 1.3 bounds the
  commission from below only where the cap is at least 1.3. Where the cap is not
  reached the commission is tiered: the larger of 1.3 and 0.013 per share up to 500
  shares, and 0.008 per share above 500 shares.
\<close>

theorem commission_bounds:
  "caculate_ib_commission q p \<le> 5 / 10 / 100 * real_of_int q * p
   \<and> min (13 / 10) (5 / 10 / 100 * real_of_int q * p) \<le> caculate_ib_commission q p
   \<and> (q \<le> 500 \<longrightarrow> max (13 / 10) (13 / 1000 * real_of_int q) \<le> 5 / 10 / 100 * real_of_int q * p
        \<longrightarrow> caculate_ib_commission q p = max (13 / 10) (13 / 1000 * real_of_int q))
   \<and> (500 < q \<longrightarrow> 8 / 1000 * real_of_int q \<le> 5 / 10 / 100 * real_of_int q * p
        \<longrightarrow> caculate_ib_commission q p = 8 / 1000 * real_of_int q)"
proof (intro conjI impI)
  show "caculate_ib_commission q p \<le> 5 / 10 / 100 * real_of_int q * p"
    unfolding commission_unfold by (rule min_max_le_cap)
  show "min (13 / 10) (5 / 10 / 100 * real_of_int q * p) \<le> caculate_ib_commission q p"
    unfolding commission_unfold by (rule min_floor_le)
next
  assume "q \<le> 500"
    and "max (13 / 10) (13 / 1000 * real_of_int q) \<le> 5 / 10 / 100 * real_of_int q * p"
  then show "caculate_ib_commission q p = max (13 / 10) (13 / 1000 * real_of_int q)"
    unfolding commission_unfold by (simp only: if_True min_max_below_cap)
next
  assume q: "500 < q" and c: "8 / 1000 * real_of_int q \<le> 5 / 10 / 100 * real_of_int q * p"
  have m: "max (13 / 10) (8 / 1000 * real_of_int q) = 8 / 1000 * real_of_int q"
    using q by (simp add: max_def)
  have n: "\<not> q \<le> 500" using q by simp
  have "caculate_ib_commission q p
          = min (max (13 / 10) (8 / 1000 * real_of_int q)) (5 / 10 / 100 * real_of_int q * p)"
    unfolding commission_unfold using n by (simp only: if_False)
  also have "\<dots> = max (13 / 10) (8 / 1000 * real_of_int q)"
    using c by (intro min_max_below_cap) (simp only: m)
  finally show "caculate_ib_commission q p = 8 / 1000 * real_of_int q"
    by (simp only: m)
qed

text \<open>
  100 shares at 50 pay the flat 1.3; 1000 shares at 50 pay 0.008 a share; 1000 shares
  at 1 pay the cap, 5.
\<close>

theorem commission_bounds_witness:
  "caculate_ib_commission 100 50 = 13 / 10 \<and> caculate_ib_commission 1000 50 = 8
   \<and> caculate_ib_commission 1000 1 = 5"
  using commission_bounds [of 100 50] commission_bounds [of 1000 50]
    commission_bounds [of 1000 1]
  by (simp add: caculate_ib_commission_def)

text \<open>
  Claim C9 as stated fails: one share filled at 10 has the cap 0.05, and the commission
  is 0.05, below the flat minimum 1.3.
\<close>

theorem commission_below_minimum:
  "caculate_ib_commission 1 10 = 1 / 20 \<and> \<not> (13 / 10 \<le> caculate_ib_commission 1 10)"
  by (simp add: caculate_ib_commission_def)

section \<open>Properties of data.py\<close>

subsection \<open>The latest bars of a symbol\<close>

text \<open>
  Claim C8, as amended. For a symbol of \<^verbatim>\<open>latest_symbol_data\<close> with \<open>k\<close> bars and a
  count \<open>N\<close> of at least 1, \<^verbatim>\<open>get_latest_bars\<close> returns the last \<open>min N k\<close> bars in
  the order they were produced. For any other symbol it raises nothing and returns
  Python's \<^verbatim>\<open>None\<close>, not an empty sequence.
\<close>

theorem get_latest_bars_recent:
  "(latest symbol = None \<longrightarrow> get_latest_bars latest symbol N = None)
   \<and> (latest symbol = Some bar_list \<longrightarrow> 1 \<le> N \<longrightarrow>
        (\<exists>older res. get_latest_bars latest symbol N = Some res \<and> bar_list = older @ res
           \<and> length res = min (nat N) (length bar_list)))"
proof (intro conjI impI)
  assume "latest symbol = None"
  then show "get_latest_bars latest symbol N = None"
    by (simp add: get_latest_bars_def)
next
  assume l: "latest symbol = Some bar_list" and n: "1 \<le> N"
  let ?k = "nat (max 0 (int (length bar_list) - N))"
  have r: "get_latest_bars latest symbol N = Some (drop ?k bar_list)"
    using l n by (simp add: get_latest_bars_def py_slice_from_def)
  have "bar_list = take ?k bar_list @ drop ?k bar_list" by simp
  moreover have "length bar_list - ?k = min (nat N) (length bar_list)"
    using n by arith
  then have "length (drop ?k bar_list) = min (nat N) (length bar_list)"
    by (simp only: length_drop)
  ultimately show "\<exists>older res. get_latest_bars latest symbol N = Some res
      \<and> bar_list = older @ res \<and> length res = min (nat N) (length bar_list)"
    using r by blast
qed

theorem get_latest_bars_recent_witness:
  "get_latest_bars [''A'' \<mapsto> [1::nat, 2, 3]] ''A'' 2 = Some [2, 3]
   \<and> get_latest_bars [''A'' \<mapsto> [1::nat, 2, 3]] ''B'' 2 = None"
  using get_latest_bars_recent [of "[''A'' \<mapsto> [1::nat, 2, 3]]" "''A''" 2 "[1, 2, 3]"]
    get_latest_bars_recent [of "[''A'' \<mapsto> [1::nat, 2, 3]]" "''B''" 2]
  by (simp add: get_latest_bars_def py_slice_from_def)

text \<open>
  Claim C8 as stated fails twice. With the count 0 the slice \<^verbatim>\<open>bar_list[-0:]\<close> is the
  whole list, so a symbol with two bars gets both back and not \<open>min 0 2 = 0\<close> of them
  (against the method's own docstring, ``the last N bars''). For a symbol that is not
  known the result is \<^verbatim>\<open>None\<close>, which is not the empty sequence.
\<close>

theorem get_latest_bars_zero_and_unknown:
  "get_latest_bars [''A'' \<mapsto> [1::nat, 2]] ''A'' 0 = Some [1, 2]
   \<and> get_latest_bars [''A'' \<mapsto> [1::nat, 2]] ''B'' 1 \<noteq> Some []"
  by (simp add: get_latest_bars_def py_slice_from_def)

subsection \<open>Loading and reindexing\<close>

lemma comb_index_loop_Some: "comb_index_loop files (Some ci) symbols = Some ci"
  by (induction symbols) simp_all

text \<open>The combined index is the index of the first symbol, whatever the others hold.\<close>

lemma comb_index_loop_first:
  "comb_index_loop files None (s # symbols) = Some (map fst (files s))"
  by (simp add: comb_index_loop_Some)

text \<open>
  Claim C3: the code does not do what the claim says. Symbol \<open>A\<close> is observed at 1
  and 3, symbol \<open>B\<close> at 1, 2 and 3, and the symbol list is \<open>[A, B]\<close>. The union of the
  two indexes is \<open>[1, 2, 3]\<close>, but the result of \<^verbatim>\<open>comb_index.union\<close> is dropped and
  both frames are reindexed on the index of \<open>A\<close>: \<open>A\<close> keeps its rows at 1 and 3, so
  its second row is the observation at 3 and not the one at 1 carried forward, and
  \<open>B\<close> loses its row at 2.
\<close>

theorem open_convert_csv_files_first_index:
  "map_sum id symbol_data
     (open_convert_csv_files
        (\<lambda>s. if s = ''A'' then [(1::nat, 10::real), (3, 30)] else [(1, 11), (2, 21), (3, 31)])
        [''A'', ''B''] :: exn + (nat, real, nat) HistoricCSVDataHandler)
   = Inr [(''A'', [(1, Some 10), (3, Some 30)]), (''B'', [(1, Some 11), (3, Some 31)])]
   \<and> index_union [1::nat, 3] [1, 2, 3] = [1, 2, 3]"
  by (simp add: open_convert_csv_files_def reindex_pad_def index_union_def)

text \<open>
  With the symbols in the other order the index of \<open>B\<close> happens to be the union, and
  \<open>A\<close> gets its observation at 1 again at 2.
\<close>

lemma open_convert_csv_files_other_order:
  "map_sum id symbol_data
     (open_convert_csv_files
        (\<lambda>s. if s = ''A'' then [(1::nat, 10::real), (3, 30)] else [(1, 11), (2, 21), (3, 31)])
        [''B'', ''A''] :: exn + (nat, real, nat) HistoricCSVDataHandler)
   = Inr [(''B'', [(1, Some 11), (2, Some 21), (3, Some 31)]),
          (''A'', [(1, Some 10), (2, Some 10), (3, Some 30)])]"
  by (simp add: open_convert_csv_files_def reindex_pad_def)

subsection \<open>Advancing the feed\<close>

text \<open>
  Were the generator of \<^verbatim>\<open>_get_new_bar\<close> advanced, it would never yield a bar, and
  it would raise \<^verbatim>\<open>StopIteration\<close> exactly when the dictionary \<^verbatim>\<open>symbol_data\<close> has
  no key; neither depends on which key the dictionary yields first.
\<close>

lemma get_new_bar_first_no_bar: "get_new_bar_first strptime sdata symbol \<noteq> Inr b"
  by (simp add: get_new_bar_first_def split: list.splits sum.splits option.splits)

lemma get_new_bar_first_StopIteration:
  "get_new_bar_first strptime sdata symbol = Inl StopIteration \<longleftrightarrow> sdata = []"
  by (auto simp: get_new_bar_first_def py_index_def
      split: list.splits sum.splits option.splits if_splits)

text \<open>
  \<^verbatim>\<open>update_bars\<close> raises \<^verbatim>\<open>AttributeError\<close> at its first symbol, whatever the
  handler holds, and puts nothing on the queue.
\<close>

lemma update_bars_loop_raises:
  "ss \<noteq> [] \<Longrightarrow> update_bars_loop strptime h ss = Inl AttributeError"
  by (cases ss) (simp_all add: generator_next_def)

lemma update_bars_loaded_raises:
  "symbol_list h \<noteq> [] \<Longrightarrow> update_bars strptime h q = Inl AttributeError"
  by (simp add: update_bars_def update_bars_loop_raises)

text \<open>
  \<^verbatim>\<open>update_bars\<close> returns only for a handler that tracks no symbol; it leaves the
  handler as it was and has put one \<^verbatim>\<open>MarketEvent\<close> at the end of the queue. So no call
  of \<^verbatim>\<open>update_bars\<close> ever clears \<^verbatim>\<open>continue_backtest\<close>.
\<close>

lemma update_bars_result:
  assumes "update_bars strptime h q = Inr (h', q')"
  shows "symbol_list h = []" and "h' = h" and "q' = q @ [Some MarketEvent]"
proof -
  show e: "symbol_list h = []"
    using assms update_bars_loaded_raises [of h strptime q] by (cases "symbol_list h") auto
  show "h' = h" and "q' = q @ [Some MarketEvent]"
    using assms e by (simp_all add: update_bars_def)
qed

lemma update_bars_keeps_flag:
  "update_bars strptime h q = Inr (h', q') \<Longrightarrow> continue_backtest h' = continue_backtest h"
  using update_bars_result(2) by blast

section \<open>Properties of portfolio.py\<close>

subsection \<open>Orders from signals\<close>

text \<open>A signal made by \<^verbatim>\<open>SignalEvent.__init__\<close> has no strength, for any arguments.\<close>

lemma SignalEvent_init_no_strength:
  "SignalEvent_init symbol datetime sigtype = Inr signal \<Longrightarrow> strength signal = None"
  by (auto simp: SignalEvent_init_def split: if_splits)

lemma generate_naive_order_SignalEvent:
  "SignalEvent_init symbol datetime sigtype = Inr signal
     \<Longrightarrow> generate_naive_order p signal = Inl AttributeError"
  by (auto simp: SignalEvent_init_def generate_naive_order_def split: if_splits)

text \<open>
  On an object that does carry a strength \<open>s \<ge> 0\<close>, the sizing is the one of the
  specification: a long signal on a flat position buys \<open>\<lfloor>100 * s\<rfloor>\<close> at market, and a
  long signal on a position that is not flat orders nothing.
\<close>

lemma generate_naive_order_long_flat:
  assumes "strength signal = Some s" and "0 \<le> s" and "signal_type signal = ''LONG''"
    and "current_positions p (sig_symbol signal) = Some 0"
  shows "generate_naive_order p signal
           = Inr (Some \<lparr>ord_symbol = sig_symbol signal, order_type = ''MKT'',
                         ord_quantity = \<lfloor>100 * s\<rfloor>, ord_direction = ''BUY''\<rparr>)"
  using assms by (simp add: generate_naive_order_def OrderEvent_init_def)

lemma generate_naive_order_long_held:
  assumes "strength signal = Some s" and "signal_type signal = ''LONG''"
    and "current_positions p (sig_symbol signal) = Some q" and "q \<noteq> 0"
  shows "generate_naive_order p signal = Inr None"
  using assms by (simp add: generate_naive_order_def)

text \<open>
  Claim C6: the code does not do what the claim says. The long signal for \<open>X\<close> that
  \<^verbatim>\<open>SignalEvent('X', 0, 'LONG')\<close> constructs has no strength; on a new portfolio,
  where the position of \<open>X\<close> is zero, \<^verbatim>\<open>generate_naive_order\<close> raises
  \<^verbatim>\<open>AttributeError\<close> at \<^verbatim>\<open>signal.strength\<close>, and so does \<^verbatim>\<open>update_signal\<close>: no buy
  order for 100 shares is made or put on the queue.
\<close>

theorem generate_naive_order_no_strength:
  "SignalEvent_init ''X'' (0::nat) ''LONG''
     = Inr \<lparr>sig_symbol = ''X'', sig_datetime = 0, signal_type = ''LONG'', strength = None\<rparr>
   \<and> generate_naive_order (NaivePortfolio_init [''X''] (0::nat) 100000)
        \<lparr>sig_symbol = ''X'', sig_datetime = 0, signal_type = ''LONG'', strength = None\<rparr>
     = Inl AttributeError
   \<and> update_signal (NaivePortfolio_init [''X''] (0::nat) 100000) []
        (Signal \<lparr>sig_symbol = ''X'', sig_datetime = 0, signal_type = ''LONG'', strength = None\<rparr>)
     = Inl AttributeError"
  by (simp add: SignalEvent_init_def generate_naive_order_def update_signal_def)

lemma generate_naive_order_MKT:
  "generate_naive_order p signal = Inr (Some ord) \<Longrightarrow> order_type ord = ''MKT''"
  unfolding generate_naive_order_def OrderEvent_init_def Let_def
  by (auto split: option.splits if_splits)

text \<open>
  Claim C10. Whenever \<^verbatim>\<open>update_signal\<close> returns for a signal, it has put exactly one
  item on the queue: either \<^verbatim>\<open>None\<close> (no order), or the one order that
  \<^verbatim>\<open>generate_naive_order\<close> constructed, and that order was constructed with the kind
  \<^verbatim>\<open>'MKT'\<close>. So a signal produces at most one order, and never a limit order, for any
  direction, strength and position.
\<close>

theorem update_signal_one_market_order:
  "update_signal p evs (Signal signal) = Inr evs' \<Longrightarrow>
     (generate_naive_order p signal = Inr None \<and> evs' = evs @ [None])
     \<or> (\<exists>ord. generate_naive_order p signal = Inr (Some ord)
            \<and> evs' = evs @ [Some (Order ord)] \<and> order_type ord = ''MKT'')"
proof -
  assume u: "update_signal p evs (Signal signal) = Inr evs'"
  then obtain r where g: "generate_naive_order p signal = Inr r"
    and e: "evs' = evs @ [map_option Order r]"
    by (auto simp: update_signal_def split: sum.splits)
  show ?thesis
  proof (cases r)
    case None
    then show ?thesis using g e by simp
  next
    case (Some ord)
    then show ?thesis using g e generate_naive_order_MKT [of p signal ord] by simp
  qed
qed

text \<open>A short signal of strength 1 on a flat position: one market order to sell 100.\<close>

theorem update_signal_one_market_order_witness:
  "update_signal \<lparr>port_symbol_list = [''X''], start_date = (0::nat), init_capital = 100000,
       all_position = [], current_positions = [''X'' \<mapsto> 0], all_holdings = [],
       current_holdings = HoldingsDict Map.empty\<rparr> []
     (Signal \<lparr>sig_symbol = ''X'', sig_datetime = 0, signal_type = ''SHORT'', strength = Some 1\<rparr>)
   = Inr [Some (Order \<lparr>ord_symbol = ''X'', order_type = ''MKT'', ord_quantity = 100,
                        ord_direction = ''SELL''\<rparr>)]"
proof -
  let ?p = "\<lparr>port_symbol_list = [''X''], start_date = (0::nat), init_capital = 100000,
       all_position = [], current_positions = [''X'' \<mapsto> 0], all_holdings = [],
       current_holdings = HoldingsDict Map.empty\<rparr>"
  let ?s = "\<lparr>sig_symbol = ''X'', sig_datetime = 0::nat, signal_type = ''SHORT'',
             strength = Some 1\<rparr>"
  let ?o = "\<lparr>ord_symbol = ''X'', order_type = ''MKT'', ord_quantity = 100,
             ord_direction = ''SELL''\<rparr>"
  have u: "update_signal ?p [] (Signal ?s) = Inr [Some (Order ?o)]"
    by (simp add: update_signal_def generate_naive_order_def OrderEvent_init_def)
  from update_signal_one_market_order [OF u] show ?thesis using u by simp
qed

subsection \<open>The rows of the time-index update\<close>

text \<open>
  The loop of \<^verbatim>\<open>update_timeindex\<close> leaves in \<^verbatim>\<open>total\<close> what it found there plus the
  values it stored under the symbols, when no symbol is listed twice or named
  \<^verbatim>\<open>'total'\<close>.
\<close>

lemma holdings_loop_cells:
  assumes "holdings_loop cp bs dh ss = Inr dh'"
    and "distinct ss" and "''total'' \<notin> set ss" and "dh ''total'' = Some t"
  shows "dh' ''total'' = Some (t + sum_list (map (symbol_value dh') ss))
         \<and> (\<forall>k. k \<notin> set ss \<longrightarrow> k \<noteq> ''total'' \<longrightarrow> dh' k = dh k)"
  using assms
proof (induction ss arbitrary: dh t)
  case Nil
  then show ?case by simp
next
  case (Cons s ss)
  from Cons.prems(1) obtain q b where q: "cp s = Some q" and b: "first_bar (bs s) = Inr b"
    by (auto split: option.splits sum.splits)
  let ?mv = "real_of_int q * bar_close b"
  let ?dh2 = "(dh(s \<mapsto> ?mv))(''total'' \<mapsto> t + ?mv)"
  have st: "s \<noteq> ''total''" using Cons.prems(3) by auto
  have rec: "holdings_loop cp bs ?dh2 ss = Inr dh'"
    using Cons.prems(1) Cons.prems(4) q b st by (simp add: Let_def)
  have ih: "dh' ''total'' = Some (t + ?mv + sum_list (map (symbol_value dh') ss))
         \<and> (\<forall>k. k \<notin> set ss \<longrightarrow> k \<noteq> ''total'' \<longrightarrow> dh' k = ?dh2 k)"
    using Cons.IH [OF rec] Cons.prems(2,3) by simp
  have s_val: "dh' s = Some ?mv"
    using ih Cons.prems(2) st by simp
  have "symbol_value dh' s = ?mv" using s_val by (simp add: symbol_value_def)
  then show ?case using ih by auto
qed

text \<open>
  The part of claim C1 that holds: the row that \<^verbatim>\<open>update_timeindex\<close> appends to
  \<^verbatim>\<open>all_holdings\<close> has \<^verbatim>\<open>total\<close> equal to \<^verbatim>\<open>cash\<close> plus the values of the tracked
  symbols, and so has the seed row.
\<close>

lemma update_timeindex_row:
  assumes "update_timeindex latest p = Inr p'"
    and "distinct (port_symbol_list p)"
    and "''total'' \<notin> set (port_symbol_list p)" and "''cash'' \<notin> set (port_symbol_list p)"
  shows "\<exists>row. all_holdings p' = all_holdings p @ [row]
           \<and> total_is_cash_plus_values (port_symbol_list p) (row_cells row)"
proof -
  let ?syms = "port_symbol_list p"
  let ?bars = "\<lambda>sym. get_latest_bars latest sym 1"
  have "\<exists>b0 ch cash comm dh.
      holdings_dict (current_holdings p) = Inr ch \<and> ch ''cash'' = Some cash
    \<and> ch ''commission'' = Some comm
    \<and> holdings_loop (current_positions p) ?bars
         ((zero_dict ?syms)(''cash'' \<mapsto> cash, ''commission'' \<mapsto> comm, ''total'' \<mapsto> cash)) ?syms
         = Inr dh
    \<and> all_holdings p' = all_holdings p @ [\<lparr>row_datetime = b0, row_cells = dh\<rparr>]"
    using assms(1) unfolding update_timeindex_def Let_def
    by (auto split: sum.splits option.splits)
  then obtain b0 ch cash comm dh where
    loop: "holdings_loop (current_positions p) ?bars
         ((zero_dict ?syms)(''cash'' \<mapsto> cash, ''commission'' \<mapsto> comm, ''total'' \<mapsto> cash)) ?syms
         = Inr dh"
    and p': "all_holdings p' = all_holdings p @ [\<lparr>row_datetime = b0, row_cells = dh\<rparr>]"
    by blast
  have c: "dh ''total'' = Some (cash + sum_list (map (symbol_value dh) ?syms))
         \<and> (\<forall>k. k \<notin> set ?syms \<longrightarrow> k \<noteq> ''total'' \<longrightarrow>
               dh k = ((zero_dict ?syms)(''cash'' \<mapsto> cash, ''commission'' \<mapsto> comm,
                                          ''total'' \<mapsto> cash)) k)"
    by (rule holdings_loop_cells [OF loop assms(2,3)]) simp
  then have "dh ''cash'' = Some cash" using assms(4) by simp
  then have "total_is_cash_plus_values ?syms dh"
    using c by (simp add: total_is_cash_plus_values_def)
  then show ?thesis using p' by simp
qed

lemma construct_all_holdings_total:
  assumes "''total'' \<notin> set symbols" and "''cash'' \<notin> set symbols"
    and "''commission'' \<notin> set symbols"
  shows "\<forall>row \<in> set (construct_all_holdings symbols start capital).
           total_is_cash_plus_values symbols (row_cells row)"
proof -
  let ?cells = "(zero_dict symbols)(''cash'' \<mapsto> capital, ''commission'' \<mapsto> 0,
                                     ''total'' \<mapsto> capital)"
  have "symbol_value ?cells s = 0" if "s \<in> set symbols" for s
    using that assms by (auto simp: symbol_value_def zero_dict_def)
  then have "map (symbol_value ?cells) symbols = map (\<lambda>s. 0) symbols" by simp
  then have "sum_list (map (symbol_value ?cells) symbols)
               = sum_list (map (\<lambda>s. 0::real) symbols)"
    by (simp only:)
  then have "sum_list (map (symbol_value ?cells) symbols) = 0" by simp
  then show ?thesis
    by (simp add: construct_all_holdings_def total_is_cash_plus_values_def)
qed

text \<open>
  On a new portfolio \<^verbatim>\<open>current_holdings\<close> is a list, and both updates raise.
\<close>

lemma update_timeindex_init_raises:
  "\<exists>e. update_timeindex latest (NaivePortfolio_init symbols start capital) = Inl e"
  unfolding update_timeindex_def NaivePortfolio_init_def Let_def
  by (auto split: sum.splits)

lemma update_holdings_from_fill_init_raises:
  "\<exists>e. update_holdings_from_fill latest (NaivePortfolio_init symbols start capital) fill = Inl e"
  unfolding update_holdings_from_fill_def NaivePortfolio_init_def Let_def
  by (auto split: sum.splits)

subsection \<open>The fill update\<close>

abbreviation bar_X :: "nat bar" where
  "bar_X \<equiv> \<lparr>bar_symbol = ''X'', bar_datetime = 1, bar_open = 10, bar_low = 10,
             bar_high = 10, bar_close = 10, bar_volume = 1000\<rparr>"

text \<open>
  Claim C1: the code does not do what the claim says for \<^verbatim>\<open>current_holdings\<close>. A
  ledger holds 100000 in cash and nothing else, its \<^verbatim>\<open>current_holdings\<close> a dictionary;
  the latest close of \<open>X\<close> is 10. A fill that buys 100 shares, with the derived
  commission 1.3, stores 1000 under \<open>X\<close> and takes 1001.3 from \<^verbatim>\<open>cash\<close> and from
  \<^verbatim>\<open>total\<close> alike: \<^verbatim>\<open>total\<close> is 98998.7, the same as \<^verbatim>\<open>cash\<close>, and not
  \<^verbatim>\<open>cash\<close> plus the 1000 held in \<open>X\<close>. On the portfolio as its constructor leaves
  it, the same fill raises \<^verbatim>\<open>TypeError\<close>, because \<^verbatim>\<open>current_holdings\<close> is a list.
\<close>

theorem fill_update_breaks_total:
  "update_fill [''X'' \<mapsto> [bar_X]]
     \<lparr>port_symbol_list = [''X''], start_date = 0, init_capital = 100000,
      all_position = construct_all_positions [''X''] 0,
      current_positions = [''X'' \<mapsto> 0],
      all_holdings = construct_all_holdings [''X''] 0 100000,
      current_holdings = HoldingsDict [''X'' \<mapsto> 0, ''cash'' \<mapsto> 100000, ''commission'' \<mapsto> 0,
                                       ''total'' \<mapsto> 100000]\<rparr>
     (Fill (FillEvent_init 1 ''X'' ''ARCA'' 100 ''BUY'' 10 None))
   = Inr \<lparr>port_symbol_list = [''X''], start_date = 0, init_capital = 100000,
      all_position = construct_all_positions [''X''] 0,
      current_positions = [''X'' \<mapsto> 100],
      all_holdings = construct_all_holdings [''X''] 0 100000,
      current_holdings = HoldingsDict [''X'' \<mapsto> 1000, ''cash'' \<mapsto> 989987 / 10,
                                       ''commission'' \<mapsto> 13 / 10, ''total'' \<mapsto> 989987 / 10]\<rparr>
   \<and> \<not> total_is_cash_plus_values [''X'']
         [''X'' \<mapsto> 1000, ''cash'' \<mapsto> 989987 / 10, ''commission'' \<mapsto> 13 / 10,
          ''total'' \<mapsto> 989987 / 10]
   \<and> update_fill [''X'' \<mapsto> [bar_X]] (NaivePortfolio_init [''X''] 0 100000)
       (Fill (FillEvent_init 1 ''X'' ''ARCA'' 100 ''BUY'' 10 None))
     = Inl TypeError"
  by (simp add: update_fill_def update_holdings_from_fill_def update_positions_from_fill_def
      FillEvent_init_def caculate_ib_commission_def get_latest_bars_def py_slice_from_def
      fill_dir_def NaivePortfolio_init_def total_is_cash_plus_values_def symbol_value_def
      fun_eq_iff)

lemma drop_to_last: "xs \<noteq> [] \<Longrightarrow> drop (length xs - 1) xs = [last xs]"
proof -
  assume n: "xs \<noteq> []"
  have "drop (length (butlast xs)) (butlast xs @ [last xs]) = [last xs]" by simp
  moreover have "butlast xs @ [last xs] = xs" using n by (rule append_butlast_last_id)
  ultimately show ?thesis by (simp only: length_butlast)
qed

text \<open>\<^verbatim>\<open>get_latest_bars(symbol)[0]\<close> is the bar produced last.\<close>

lemma get_latest_bars_last:
  "latest symbol = Some bar_list \<Longrightarrow> bar_list \<noteq> []
     \<Longrightarrow> first_bar (get_latest_bars latest symbol 1) = Inr (last bar_list)"
proof -
  assume l: "latest symbol = Some bar_list" and n: "bar_list \<noteq> []"
  have "nat (max 0 (int (length bar_list) + - 1)) = length bar_list - 1"
    using n by (cases bar_list) simp_all
  then have "py_slice_from bar_list (- 1) = drop (length bar_list - 1) bar_list"
    by (simp add: py_slice_from_def)
  also have "\<dots> = [last bar_list]"
    using n by (rule drop_to_last)
  finally show ?thesis using l by (simp add: get_latest_bars_def)
qed

text \<open>
  What the fill update would do on a ledger whose \<^verbatim>\<open>current_holdings\<close> were a
  dictionary (no ledger of the program is one, see below): with \<open>delta\<close> the quantity
  for BUY and its negative for SELL, it adds \<open>delta\<close> to the position of the symbol,
  adds \<open>delta\<close> times the close of the symbol's latest bar (not the fill's own price)
  to the symbol's holding, takes that amount plus the fill's commission from
  \<^verbatim>\<open>cash\<close>, and adds the commission to \<^verbatim>\<open>commission\<close>.
\<close>

lemma update_fill_on_dictionary:
  assumes dir: "fill_direction fill = ''BUY'' \<or> fill_direction fill = ''SELL''"
    and latest_bars: "latest (fill_symbol fill) = Some bar_list" "bar_list \<noteq> []"
    and dict: "current_holdings p = HoldingsDict ch"
    and cells: "ch (fill_symbol fill) = Some v" "ch ''commission'' = Some c"
      "ch ''cash'' = Some x" "ch ''total'' = Some t"
    and pos: "current_positions p (fill_symbol fill) = Some q"
    and names: "fill_symbol fill \<notin> {''commission'', ''cash'', ''total''}"
  shows "\<exists>p' ch'. update_fill latest p (Fill fill) = Inr p'
      \<and> current_positions p'
          = (current_positions p)(fill_symbol fill \<mapsto>
               q + (if fill_direction fill = ''BUY'' then fill_quantity fill
                    else - fill_quantity fill))
      \<and> current_holdings p' = HoldingsDict ch'
      \<and> ch' (fill_symbol fill)
          = Some (v + real_of_int (if fill_direction fill = ''BUY'' then fill_quantity fill
                                   else - fill_quantity fill) * bar_close (last bar_list))
      \<and> ch' ''cash''
          = Some (x - (real_of_int (if fill_direction fill = ''BUY'' then fill_quantity fill
                                    else - fill_quantity fill) * bar_close (last bar_list)
                       + commission fill))
      \<and> ch' ''commission'' = Some (c + commission fill)
      \<and> (\<forall>k. k \<notin> {fill_symbol fill, ''commission'', ''cash'', ''total''} \<longrightarrow> ch' k = ch k)"
proof -
  let ?delta = "if fill_direction fill = ''BUY'' then fill_quantity fill
                else - fill_quantity fill"
  let ?cost = "real_of_int (fill_dir (fill_direction fill)) * bar_close (last bar_list)
                 * real_of_int (fill_quantity fill)"
  have d: "fill_dir (fill_direction fill) * fill_quantity fill = ?delta"
    using dir by (auto simp: fill_dir_def)
  have cost: "?cost = real_of_int ?delta * bar_close (last bar_list)"
    using dir by (auto simp: fill_dir_def)
  let ?ch' = "ch(fill_symbol fill \<mapsto> v + ?cost, ''commission'' \<mapsto> c + commission fill,
                 ''cash'' \<mapsto> x - (?cost + commission fill),
                 ''total'' \<mapsto> t - (?cost + commission fill))"
  have fb: "first_bar (get_latest_bars latest (fill_symbol fill) 1) = Inr (last bar_list)"
    using latest_bars by (rule get_latest_bars_last)
  have ne: "fill_symbol fill \<noteq> ''commission''" "''commission'' \<noteq> fill_symbol fill"
    "fill_symbol fill \<noteq> ''cash''" "''cash'' \<noteq> fill_symbol fill"
    "fill_symbol fill \<noteq> ''total''" "''total'' \<noteq> fill_symbol fill"
    using names by auto
  have h: "update_holdings_from_fill latest p fill
             = Inr (p\<lparr>current_holdings := HoldingsDict ?ch'\<rparr>)"
    using ne cells dict
    by (simp add: update_holdings_from_fill_def fb Let_def)
  have u: "update_fill latest p (Fill fill)
        = Inr (p\<lparr>current_holdings := HoldingsDict ?ch',
                 current_positions := (current_positions p)(fill_symbol fill \<mapsto> q + ?delta)\<rparr>)"
    using pos by (simp add: update_fill_def h update_positions_from_fill_def d)
  show ?thesis
    unfolding u using ne by (simp add: cost)
qed

text \<open>
  On the ledger that the constructor makes, every fill raises, and the ledger a run
  starts with is that one: its \<^verbatim>\<open>current_holdings\<close> is a list, and no method assigns
  the attribute again.
\<close>

lemma update_fill_init_raises:
  "\<exists>e. update_fill latest (NaivePortfolio_init symbols start capital) (Fill fill) = Inl e"
proof -
  have "\<exists>e. update_holdings_from_fill latest
      (NaivePortfolio_init symbols start capital) fill = Inl e"
    by (rule update_holdings_from_fill_init_raises)
  then obtain e where "update_holdings_from_fill latest
      (NaivePortfolio_init symbols start capital) fill = Inl e" ..
  then show ?thesis by (simp add: update_fill_def)
qed

text \<open>
  Claim C2: the code does not do what the claim says. A new portfolio tracks \<open>X\<close>,
  whose latest bar closed at 10, and receives a fill that buys 100 shares at the fill
  price 12 with the commission 1. The fill update raises \<^verbatim>\<open>TypeError\<close> at
  \<^verbatim>\<open>self.current_holdings[fill.symbol]\<close>, because \<^verbatim>\<open>construct_current_holdings\<close>
  returned a list: no holding, cash or commission changes, and the position is not
  updated either, since \<^verbatim>\<open>update_fill\<close> updates the holdings first. The second
  equation shows the method bodies alone, on a ledger set by hand to the dictionary the
  constructor should have made: the holding of \<open>X\<close> grows by 1000, the quantity times
  the latest close, and not by \<open>100 * 12\<close>, and \<^verbatim>\<open>total\<close> loses 1001 like \<^verbatim>\<open>cash\<close>
  instead of being recomputed.
\<close>

theorem fill_on_constructed_ledger_raises:
  "update_fill [''X'' \<mapsto> [bar_X]] (NaivePortfolio_init [''X''] 0 100000)
     (Fill (FillEvent_init 1 ''X'' ''ARCA'' 100 ''BUY'' 12 (Some 1)))
   = Inl TypeError
   \<and> update_fill [''X'' \<mapsto> [bar_X]]
     \<lparr>port_symbol_list = [''X''], start_date = 0, init_capital = 100000,
      all_position = construct_all_positions [''X''] 0,
      current_positions = [''X'' \<mapsto> 0],
      all_holdings = construct_all_holdings [''X''] 0 100000,
      current_holdings = HoldingsDict [''X'' \<mapsto> 0, ''cash'' \<mapsto> 100000, ''commission'' \<mapsto> 0,
                                       ''total'' \<mapsto> 100000]\<rparr>
     (Fill (FillEvent_init 1 ''X'' ''ARCA'' 100 ''BUY'' 12 (Some 1)))
   = Inr \<lparr>port_symbol_list = [''X''], start_date = 0, init_capital = 100000,
      all_position = construct_all_positions [''X''] 0,
      current_positions = [''X'' \<mapsto> 100],
      all_holdings = construct_all_holdings [''X''] 0 100000,
      current_holdings = HoldingsDict [''X'' \<mapsto> 1000, ''cash'' \<mapsto> 98999,
                                       ''commission'' \<mapsto> 1, ''total'' \<mapsto> 98999]\<rparr>
   \<and> fill_cost (FillEvent_init (1::nat) ''X'' ''ARCA'' 100 ''BUY'' 12 (Some 1)) = 12"
  by (simp add: update_fill_def update_holdings_from_fill_def update_positions_from_fill_def
      FillEvent_init_def get_latest_bars_def py_slice_from_def fill_dir_def
      NaivePortfolio_init_def fun_eq_iff)

section \<open>Properties of performance.py\<close>

subsection \<open>The Sharpe ratio\<close>

text \<open>On a Series, the documented argument, the first test raises for every input.\<close>

lemma get_sharpe_ratio_Series:
  "get_sharpe_ratio mean std (Series returns) risk_free periods = Inl ValueError"
  by (simp add: get_sharpe_ratio_def)

text \<open>
  Claim C5, as amended. Given the returns as a Python list, \<^verbatim>\<open>get_sharpe_ratio\<close>
  fails exactly when the list is empty (\<^verbatim>\<open>ValueError\<close>, and only then), or
  \<^verbatim>\<open>periods\<close> is none of the three names, or the risk-free parameter lies outside
  \<open>[0, 1]\<close>. A zero standard deviation is not among the failures: otherwise the
  function returns the quotient of \<open>sqrt period * mean\<close> by the standard deviation
  when \<^verbatim>\<open>np.std\<close> returned a number other than zero, and when it returned zero the
  function still divides, without a guard, and returns \<^verbatim>\<open>inf\<close>, \<^verbatim>\<open>-inf\<close> or
  \<^verbatim>\<open>nan\<close>. This holds whatever \<^verbatim>\<open>np.mean\<close> and \<^verbatim>\<open>np.std\<close> compute.
\<close>

theorem get_sharpe_ratio_domain:
  "((\<exists>e. get_sharpe_ratio mean std (PyList returns) risk_free periods = Inl e)
      \<longleftrightarrow> (returns = []
            \<or> \<not> (periods = ''Daily'' \<or> periods = ''Hour'' \<or> periods = ''Minute'')
            \<or> risk_free < 0 \<or> 1 < risk_free))
   \<and> (get_sharpe_ratio mean std (PyList returns) risk_free periods = Inl ValueError
        \<longleftrightarrow> returns = [])
   \<and> (\<forall>v pc. get_sharpe_ratio mean std (PyList returns) risk_free periods = Inr v \<longrightarrow>
         period periods = Some pc \<longrightarrow>
         (std returns \<noteq> 0 \<longrightarrow> v = Fin (sqrt pc * mean returns / std returns))
       \<and> (std returns = 0 \<longrightarrow> v = PosInf \<or> v = NegInf \<or> v = NaN))"
proof -
  have d: "period periods \<noteq> None"
    if "periods = ''Daily'' \<or> periods = ''Hour'' \<or> periods = ''Minute''"
    using that by (auto simp: period_def)
  show ?thesis
  proof (cases "returns = []
      \<or> \<not> (periods = ''Daily'' \<or> periods = ''Hour'' \<or> periods = ''Minute'')
      \<or> risk_free < 0 \<or> 1 < risk_free")
    case True
    then show ?thesis
      by (auto simp: get_sharpe_ratio_def)
  next
    case False
    then obtain pc where pc: "period periods = Some pc" using d by auto
    have r: "get_sharpe_ratio mean std (PyList returns) risk_free periods
               = Inr (np_div (sqrt pc * mean returns) (std returns))"
      using False pc unfolding get_sharpe_ratio_def by (simp add: not_less)
    show ?thesis
      using False unfolding r pc by (auto simp: np_div_def)
  qed
qed

text \<open>
  The list of returns 1 and 3 has mean 2 and standard deviation 1, in floats as in
  exact arithmetic; the empty list raises \<^verbatim>\<open>ValueError\<close>; the constant list 1, 1 does
  not.
\<close>

theorem get_sharpe_ratio_domain_witness:
  "get_sharpe_ratio np_mean np_std (PyList [1, 3]) 0 ''Daily'' = Inr (Fin (sqrt 252 * 2))
   \<and> get_sharpe_ratio np_mean np_std (PyList []) 0 ''Daily'' = Inl ValueError
   \<and> get_sharpe_ratio np_mean np_std (PyList [1, 1]) 0 ''Daily'' \<noteq> Inl ValueError"
proof -
  have s: "np_std [1, 3] = 1" and m: "np_mean [1, 3] = 2"
    by (simp_all add: np_std_def np_mean_def)
  have p: "period ''Daily'' = Some 252" by (simp add: period_def)
  have r: "get_sharpe_ratio np_mean np_std (PyList [1, 3]) 0 ''Daily''
             = Inr (np_div (sqrt 252 * np_mean [1, 3]) (np_std [1, 3]))"
    by (simp add: get_sharpe_ratio_def p)
  show ?thesis
    using get_sharpe_ratio_domain [of np_mean np_std "[1, 3]" 0 "''Daily''"]
      get_sharpe_ratio_domain [of np_mean np_std "[]" 0 "''Daily''"]
      get_sharpe_ratio_domain [of np_mean np_std "[1, 1]" 0 "''Daily''"] r p s m
    by simp
qed

text \<open>
  Claim C5 as stated fails: the constant list of returns 1, 1 has the mean 1 and the
  standard deviation zero, and the function raises nothing; the division is made and
  the result is \<^verbatim>\<open>inf\<close>. And the list 1, 3 with the period name \<^verbatim>\<open>'Weekly'\<close>
  fails, though it is not empty, its standard deviation is not zero and the risk-free
  parameter is 0.
\<close>

theorem get_sharpe_ratio_zero_std:
  "get_sharpe_ratio np_mean np_std (PyList [1, 1]) 0 ''Daily'' = Inr PosInf
   \<and> get_sharpe_ratio np_mean np_std (PyList [1, 3]) 0 ''Weekly'' = Inl AssertionError"
  by (simp add: get_sharpe_ratio_def period_def np_div_def np_std_def np_mean_def)

subsection \<open>Drawdowns\<close>

text \<open>
  \<^verbatim>\<open>get_max_drawdowns\<close> returns no pair for any argument: a Series is refused by the
  test \<^verbatim>\<open>if not equity_curve\<close>, the empty list by the error the test guards, and any
  other list by \<^verbatim>\<open>create_drawdowns\<close>.
\<close>

lemma get_max_drawdowns_raises: "\<exists>e. get_max_drawdowns equity_curve = Inl e"
  by (cases equity_curve) (simp_all add: get_max_drawdowns_def)

text \<open>
  Claim C4: the code does not do what the claim says. For the equity curve
  1.0, 1.2, 0.9, 1.1, a Series, \<^verbatim>\<open>get_max_drawdowns\<close> raises \<^verbatim>\<open>ValueError\<close> at its
  test \<^verbatim>\<open>if not equity_curve\<close> and returns no drawdown at all. \<^verbatim>\<open>create_drawdowns\<close>,
  called on the same curve, has the largest drawdown 0.3 first, but with the duration
  \<^verbatim>\<open>nan\<close> and not 1: its loop starts at \<open>t = 0\<close>, so \<^verbatim>\<open>hwm[t]\<close> is the mark of the
  step before, the first drawdown is \<open>0 - 1.0\<close>, no drawdown is zero, no duration is
  ever reset, and every duration is the unset last cell plus a count.
\<close>

theorem get_max_drawdowns_example:
  "get_max_drawdowns (Series [1, 6 / 5, 9 / 10, 11 / 10]) = Inl ValueError
   \<and> create_drawdowns (Series [1, 6 / 5, 9 / 10, 11 / 10])
       = Inr [(3 / 10, NaN), (- (1 / 10), NaN), (- (1 / 5), NaN), (- 1, NaN)]"
  by (simp add: get_max_drawdowns_def py_index_def upt_rec Let_def)

section \<open>Properties of main.py\<close>

text \<open>Once \<^verbatim>\<open>continue_backtest\<close> is false the loop stops without a call of \<^verbatim>\<open>update_bars\<close>.\<close>

lemma main_loop_stopped:
  "\<not> continue_backtest (bars s) \<Longrightarrow>
     main_loop strptime strategy broker k (Suc n) s = Some (Inr s)"
  by simp

text \<open>
  A run that tracks a symbol ends at its first call of \<^verbatim>\<open>update_bars\<close>, with the
  exception that call raises, for any strategy, broker and ledger.
\<close>

lemma main_loop_first_advance:
  "continue_backtest (bars s) \<Longrightarrow> symbol_list (bars s) \<noteq> [] \<Longrightarrow>
     main_loop strptime strategy broker k (Suc n) s = Some (Inl AttributeError)"
  by (simp add: update_bars_loaded_raises)

text \<open>
  Claim C7: the code does not do what the claim says. The handler is loaded for the one
  symbol \<open>A\<close>, whose file has one row; the queue is empty, the ledger new, the strategy
  and the broker do nothing. The first call of \<^verbatim>\<open>update_bars\<close> raises
  \<^verbatim>\<open>AttributeError\<close> at \<^verbatim>\<open>self._get_new_bar(s).next()\<close>: no bar is produced, the
  exhaustion of \<open>A\<close> after its one row is never found, \<^verbatim>\<open>continue_backtest\<close> stays true,
  and the dispatch loop ends by that exception, not by the feed reporting that it is
  exhausted.
\<close>

theorem main_loop_never_reports_exhaustion:
  "(open_convert_csv_files (\<lambda>s. [(1::nat, 10::real)]) [''A'']
      :: exn + (nat, real, nat) HistoricCSVDataHandler)
   = Inr \<lparr>symbol_list = [''A''], symbol_data = [(''A'', [(1, Some 10)])],
          latest_symbol_data = (\<lambda>s. if s \<in> set [''A''] then Some [] else None),
          continue_backtest = True\<rparr>
   \<and> update_bars (\<lambda>s. None)
       \<lparr>symbol_list = [''A''], symbol_data = [(''A'', [(1::nat, Some (10::real))])],
        latest_symbol_data = (\<lambda>s. if s \<in> set [''A''] then Some [] else None),
        continue_backtest = True\<rparr>
       ([] :: nat event option list)
     = Inl AttributeError
   \<and> main_loop (\<lambda>s. None) (\<lambda>x h q. Inr (x, q)) (\<lambda>x ev q. Inr (x, q)) 1 1
       \<lparr>bars = \<lparr>symbol_list = [''A''], symbol_data = [(''A'', [(1::nat, Some (10::real))])],
                 latest_symbol_data = (\<lambda>s. if s \<in> set [''A''] then Some [] else None),
                 continue_backtest = True\<rparr>,
        port = NaivePortfolio_init [''A''] (0::nat) 100000, events = [], ext = ()\<rparr>
     = Some (Inl AttributeError)"
  by (simp add: open_convert_csv_files_def reindex_pad_def update_bars_def generator_next_def)

end
